theory Spec2Isabelle
  imports Main
begin

section \<open>The post controller and the post schema\<close>

text \<open>
  A shallow embedding of \<^verbatim>\<open>backend/controllers/post.controller.js\<close> and of the
  Mongoose schema of \<^verbatim>\<open>backend/models/post.model.js\<close>. Every handler is a function
  from the parts of the request it reads and the state of the world to the response it
  sends and the state it leaves. What the collaborators outside the repository decide
  (the outcome of a Cloudinary call, the ObjectId the driver generates) is an argument of
  the handler.

  An ObjectId is a natural number: \<^verbatim>\<open>req.params.id\<close> and \<^verbatim>\<open>req.user._id\<close> are taken as
  already cast, and \<^verbatim>\<open>includes\<close> on a Mongoose array and the comparison of
  \<^verbatim>\<open>toString()\<close> values are both equality of ids. A JavaScript string is a
  \<^typ>\<open>string\<close>, a character standing for a code unit below 256; a value that can be
  \<^verbatim>\<open>undefined\<close> is an option. Timestamps and the population of author fields are
  left out: no handler branches on them.
\<close>

subsection \<open>Documents\<close>

type_synonym objectId = nat

record comment =
  comment_id :: objectId
  content :: "string option"
  comment_author :: objectId

record post =
  caption :: "string option"
  image_url :: "string option"
  video :: "string option"
  mediaType :: "string option"
  author :: objectId
  likes :: "objectId list"
  comments :: "comment list"
  bookmarks :: "objectId list"

text \<open>
  Modelled from the spec: the User model (\<^verbatim>\<open>backend/models/user.model.js\<close>) is not part
  of the source. The controller reads and writes only its \<^verbatim>\<open>bookmarks\<close> array, the
  mirror of \<^verbatim>\<open>post.bookmarks\<close>; saving a loaded user is taken to pass the validators of
  its schema.
\<close>

record user =
  user_bookmarks :: "objectId list"

text \<open>The file that the upload middleware leaves in \<^verbatim>\<open>req.file\<close>.\<close>

record req_file =
  mimetype :: string
  path :: string

subsection \<open>Errors and responses\<close>

datatype invalid_path = MediaType | CommentContent nat

datatype exn =
    ValidationError "invalid_path list"
  | DuplicateKey objectId
  | RemoteError string
  | ENOENT string
  | TypeError

text \<open>
  The \<^verbatim>\<open>message\<close> of a response: a literal of the controller, the message of the
  error a handler caught, or that message behind \<^verbatim>\<open>Upload failed:\<close>.
\<close>

datatype msg = Text string | ErrorMessage exn | UploadFailed exn

datatype payload = NoPayload | PostDoc "post option" | CommentDoc comment

datatype reply = Reply (status: nat) (success: bool) (message: msg) (payload: payload)

subsection \<open>The world\<close>

datatype upload_result = UploadOk (secure_url: string) (resource_type: string) | UploadRejected string

datatype destroy_result = DestroyResolved string | DestroyRejected string

datatype remote_call =
    UploadCall string bool upload_result
  | DestroyCall "string option" destroy_result

text \<open>
  The two collections keyed by \<^verbatim>\<open>_id\<close>, the temporary files on disk, and the calls
  made to Cloudinary so far, each with how it ended.
\<close>

record world =
  posts :: "objectId \<rightharpoonup> post"
  users :: "objectId \<rightharpoonup> user"
  files :: "string set"
  requests :: "remote_call list"

subsection \<open>JavaScript and Mongoose\<close>

text \<open>The white space and line terminators of ECMAScript among the code units below 256.\<close>

definition isWhiteSpace :: "char \<Rightarrow> bool" where
  "isWhiteSpace c = (c \<in> set [CHR 0x09, CHR 0x0A, CHR 0x0B, CHR 0x0C, CHR 0x0D, CHR 0x20, CHR 0xA0])"

definition trim :: "string \<Rightarrow> string" where
  "trim s = rev (dropWhile isWhiteSpace (rev (dropWhile isWhiteSpace s)))"

text \<open>Truthiness of a string that may be \<^verbatim>\<open>undefined\<close>.\<close>

fun truthy :: "string option \<Rightarrow> bool" where
  "truthy None = False"
| "truthy (Some s) = (s \<noteq> [])"

definition startsWith :: "string \<Rightarrow> string \<Rightarrow> bool" where
  "startsWith s p = (take (length p) s = p)"

text \<open>\<^verbatim>\<open>fs.unlink\<close> rejects when there is no file at the path.\<close>

definition unlinkAsync :: "string \<Rightarrow> world \<Rightarrow> exn + world" where
  "unlinkAsync p w =
     (if p \<in> files w then Inr (w\<lparr>files := files w - {p}\<rparr>) else Inl (ENOENT p))"

text \<open>
  The \<^verbatim>\<open>required\<close> validator of a String path fails on \<^verbatim>\<open>undefined\<close> and on the
  empty string.
\<close>

fun checkRequired :: "string option \<Rightarrow> bool" where
  "checkRequired None = False"
| "checkRequired (Some s) = (s \<noteq> [])"

text \<open>
  \<^verbatim>\<open>commentSchema\<close>: \<^verbatim>\<open>content\<close> is trimmed when it is set and is required.
\<close>

definition castComment :: "objectId \<Rightarrow> string option \<Rightarrow> objectId \<Rightarrow> comment" where
  "castComment cid text uid =
     \<lparr>comment_id = cid, content = map_option trim text, comment_author = uid\<rparr>"

fun validateComments :: "nat \<Rightarrow> comment list \<Rightarrow> invalid_path list" where
  "validateComments i [] = []"
| "validateComments i (c # cs) =
     (if checkRequired (content c) then [] else [CommentContent i]) @ validateComments (Suc i) cs"

text \<open>
  \<^verbatim>\<open>postSchema\<close>: \<^verbatim>\<open>mediaType\<close> is required and one of \<^verbatim>\<open>image\<close>, \<^verbatim>\<open>video\<close>; the
  comments are validated as subdocuments. \<^verbatim>\<open>author\<close> is required too, and always
  present here.
\<close>

definition validatePost :: "post \<Rightarrow> invalid_path list" where
  "validatePost p =
     (if checkRequired (mediaType p) \<and> mediaType p \<in> set [Some ''image'', Some ''video'']
      then [] else [MediaType])
     @ validateComments 0 (comments p)"

text \<open>\<^verbatim>\<open>post.save()\<close>: validation, then the write of the document under its id.\<close>

definition savePost :: "objectId \<Rightarrow> post \<Rightarrow> world \<Rightarrow> exn + world" where
  "savePost pid p w =
     (case validatePost p of
        [] \<Rightarrow> Inr (w\<lparr>posts := (posts w)(pid \<mapsto> p)\<rparr>)
      | e # es \<Rightarrow> Inl (ValidationError (e # es)))"

definition saveUser :: "objectId \<Rightarrow> user \<Rightarrow> world \<Rightarrow> world" where
  "saveUser uid u w = w\<lparr>users := (users w)(uid \<mapsto> u)\<rparr>"

text \<open>
  \<^verbatim>\<open>Post.create(postData)\<close>: the caption is trimmed, the arrays default to empty, the
  document is validated and inserted under the id generated for it.
\<close>

definition createPost ::
  "objectId \<Rightarrow> string option \<Rightarrow> objectId \<Rightarrow> string \<Rightarrow> string \<Rightarrow> world \<Rightarrow> exn + (post \<times> world)" where
  "createPost new_id cap uid mediaUrl mType w =
     (let p = \<lparr>caption = map_option trim cap,
               image_url = (if mediaUrl \<noteq> [] \<and> mType \<noteq> ''video'' then Some mediaUrl else None),
               video = (if mediaUrl \<noteq> [] \<and> mType = ''video'' then Some mediaUrl else None),
               mediaType = (if mediaUrl \<noteq> [] then Some mType else None),
               author = uid, likes = [], comments = [], bookmarks = []\<rparr>
      in case validatePost p of
           e # es \<Rightarrow> Inl (ValidationError (e # es))
         | [] \<Rightarrow>
             (if new_id \<in> dom (posts w) then Inl (DuplicateKey new_id)
              else Inr (p, w\<lparr>posts := (posts w)(new_id \<mapsto> p)\<rparr>)))"

subsection \<open>addNewPost\<close>

definition allowedTypes :: "string list" where
  "allowedTypes = [''image/jpeg'', ''image/png'', ''image/jpg'', ''video/mp4'']"

text \<open>The \<^verbatim>\<open>catch\<close> of the inner \<^verbatim>\<open>try\<close> (lines 62 to 72).\<close>

definition uploadCatch :: "exn \<Rightarrow> req_file \<Rightarrow> world \<Rightarrow> reply \<times> world" where
  "uploadCatch e f w =
     (Reply 500 False (UploadFailed e) NoPayload,
      if path f \<in> files w then w\<lparr>files := files w - {path f}\<rparr> else w)"

text \<open>
  The inner \<^verbatim>\<open>try\<close> (lines 37 to 61): either a response is returned from inside it
  (\<open>Inl\<close>), or \<^verbatim>\<open>mediaUrl\<close> and \<^verbatim>\<open>mediaType\<close> are set (\<open>Inr\<close>).
\<close>

definition uploadStep :: "upload_result \<Rightarrow> req_file \<Rightarrow> world \<Rightarrow> (reply \<times> world) + (string \<times> string \<times> world)" where
  "uploadStep outcome f w =
     (if mimetype f \<notin> set allowedTypes then
        (case unlinkAsync (path f) w of
           Inl e \<Rightarrow> Inl (uploadCatch e f w)
         | Inr w1 \<Rightarrow>
             Inl (Reply 400 False
                    (Text ''Invalid file type. Only JPEG, PNG, and MP4 are allowed'') NoPayload, w1))
      else
        (let w1 = w\<lparr>requests := requests w
                      @ [UploadCall (path f) (startsWith (mimetype f) ''image'') outcome]\<rparr>
         in case outcome of
              UploadRejected m \<Rightarrow> Inl (uploadCatch (RemoteError m) f w1)
            | UploadOk url rtype \<Rightarrow>
                (case unlinkAsync (path f) w1 of
                   Inl e \<Rightarrow> Inl (uploadCatch e f w1)
                 | Inr w2 \<Rightarrow> Inr (url, rtype, w2))))"

text \<open>
  Lines 75 to 94, with the \<^verbatim>\<open>catch\<close> of the outer \<^verbatim>\<open>try\<close> (lines 95 to 105) for the
  errors \<^verbatim>\<open>Post.create\<close> throws.
\<close>

definition createStep ::
  "objectId \<Rightarrow> objectId \<Rightarrow> string option \<Rightarrow> req_file option \<Rightarrow> string \<Rightarrow> string \<Rightarrow> world \<Rightarrow> reply \<times> world" where
  "createStep new_id uid cap fl mediaUrl mType w =
     (case createPost new_id cap uid mediaUrl mType w of
        Inl e \<Rightarrow>
          (Reply 500 False (ErrorMessage e) NoPayload,
           case fl of
             None \<Rightarrow> w
           | Some f \<Rightarrow> (if path f \<in> files w then w\<lparr>files := files w - {path f}\<rparr> else w))
      | Inr (p, w1) \<Rightarrow>
          (Reply 201 True (Text ''Post created successfully'') (PostDoc (posts w1 new_id)), w1))"

definition addNewPost ::
  "upload_result \<Rightarrow> objectId \<Rightarrow> objectId option \<Rightarrow> string option \<Rightarrow> req_file option \<Rightarrow> world \<Rightarrow> reply \<times> world" where
  "addNewPost outcome new_id userId cap fl w =
     (case userId of
        None \<Rightarrow> (Reply 401 False (Text ''Authentication required'') NoPayload, w)
      | Some uid \<Rightarrow>
          (if fl = None \<and> \<not> truthy cap then
             (Reply 400 False (Text ''Please provide either a caption or media file'') NoPayload, w)
           else
             (case fl of
                None \<Rightarrow> createStep new_id uid cap fl [] [] w
              | Some f \<Rightarrow>
                  (case uploadStep outcome f w of
                     Inl r \<Rightarrow> r
                   | Inr (mediaUrl, mType, w1) \<Rightarrow> createStep new_id uid cap fl mediaUrl mType w1))))"

subsection \<open>likePost and dislikePost\<close>

definition likePost :: "objectId \<Rightarrow> objectId \<Rightarrow> world \<Rightarrow> reply \<times> world" where
  "likePost uid pid w =
     (case posts w pid of
        None \<Rightarrow> (Reply 404 False (Text ''Post not found'') NoPayload, w)
      | Some p \<Rightarrow>
          (if uid \<in> set (likes p) then
             (Reply 400 False (Text ''Post already liked'') NoPayload, w)
           else
             (case savePost pid (p\<lparr>likes := likes p @ [uid]\<rparr>) w of
                Inl e \<Rightarrow> (Reply 500 False (ErrorMessage e) NoPayload, w)
              | Inr w1 \<Rightarrow> (Reply 200 True (Text ''Post liked successfully'') NoPayload, w1))))"

definition dislikePost :: "objectId \<Rightarrow> objectId \<Rightarrow> world \<Rightarrow> reply \<times> world" where
  "dislikePost uid pid w =
     (case posts w pid of
        None \<Rightarrow> (Reply 404 False (Text ''Post not found'') NoPayload, w)
      | Some p \<Rightarrow>
          (if uid \<notin> set (likes p) then
             (Reply 400 False (Text ''Post not liked yet'') NoPayload, w)
           else
             (case savePost pid (p\<lparr>likes := filter (\<lambda>i. i \<noteq> uid) (likes p)\<rparr>) w of
                Inl e \<Rightarrow> (Reply 500 False (ErrorMessage e) NoPayload, w)
              | Inr w1 \<Rightarrow> (Reply 200 True (Text ''Post disliked successfully'') NoPayload, w1))))"

subsection \<open>addComment\<close>

text \<open>
  The comment is cast and pushed, the post saved, and the saved post read back by its id
  and the id of its last comment; the response carries the last comment of what was read.
\<close>

definition addComment :: "objectId \<Rightarrow> objectId \<Rightarrow> objectId \<Rightarrow> string option \<Rightarrow> world \<Rightarrow> reply \<times> world" where
  "addComment new_id uid pid text w =
     (case posts w pid of
        None \<Rightarrow> (Reply 404 False (Text ''Post not found'') NoPayload, w)
      | Some p \<Rightarrow>
          (case savePost pid (p\<lparr>comments := comments p @ [castComment new_id text uid]\<rparr>) w of
             Inl e \<Rightarrow> (Reply 500 False (ErrorMessage e) NoPayload, w)
           | Inr w1 \<Rightarrow>
               (case posts w1 pid of
                  None \<Rightarrow> (Reply 500 False (ErrorMessage TypeError) NoPayload, w1)
                | Some doc \<Rightarrow>
                    (if new_id \<in> set (map comment_id (comments doc)) then
                       (Reply 200 True (Text ''Comment added successfully'')
                          (CommentDoc (last (comments doc))), w1)
                     else (Reply 500 False (ErrorMessage TypeError) NoPayload, w1)))))"

subsection \<open>deletePost\<close>

text \<open>\<^verbatim>\<open>post.image || post.video\<close>.\<close>

definition publicId :: "post \<Rightarrow> string option" where
  "publicId p = (if truthy (image_url p) then image_url p else video p)"

definition deleteOne :: "objectId \<Rightarrow> world \<Rightarrow> world" where
  "deleteOne pid w = w\<lparr>posts := (posts w)(pid := None)\<rparr>"

text \<open>
  The call to \<^verbatim>\<open>cloudinary.uploader.destroy\<close> is awaited inside the only \<^verbatim>\<open>try\<close> of the
  handler: when it rejects, the \<^verbatim>\<open>catch\<close> answers 500 and \<^verbatim>\<open>post.deleteOne()\<close> is not
  reached. What a resolved call reports is not read.
\<close>

definition deletePost :: "destroy_result \<Rightarrow> objectId \<Rightarrow> objectId \<Rightarrow> world \<Rightarrow> reply \<times> world" where
  "deletePost outcome uid pid w =
     (case posts w pid of
        None \<Rightarrow> (Reply 404 False (Text ''Post not found'') NoPayload, w)
      | Some p \<Rightarrow>
          (if author p \<noteq> uid then
             (Reply 403 False (Text ''Unauthorized to delete this post'') NoPayload, w)
           else if truthy (image_url p) \<or> truthy (video p) then
             (let w1 = w\<lparr>requests := requests w @ [DestroyCall (publicId p) outcome]\<rparr>
              in case outcome of
                   DestroyRejected m \<Rightarrow>
                     (Reply 500 False (ErrorMessage (RemoteError m)) NoPayload, w1)
                 | DestroyResolved r \<Rightarrow>
                     (Reply 200 True (Text ''Post deleted successfully'') NoPayload, deleteOne pid w1))
           else
             (Reply 200 True (Text ''Post deleted successfully'') NoPayload, deleteOne pid w)))"

subsection \<open>bookmarkPost\<close>

text \<open>
  \<^verbatim>\<open>Promise.all([post.save(), user.save()])\<close>: both writes are started; when the post
  fails validation the handler answers 500, and the write of the user is made all the
  same.
\<close>

definition saveBoth :: "objectId \<Rightarrow> post \<Rightarrow> objectId \<Rightarrow> user \<Rightarrow> world \<Rightarrow> exn option \<times> world" where
  "saveBoth pid p uid u w =
     (case savePost pid p w of
        Inl e \<Rightarrow> (Some e, saveUser uid u w)
      | Inr w1 \<Rightarrow> (None, saveUser uid u w1))"

text \<open>
  The user is loaded before the post is looked at, and \<^verbatim>\<open>findById\<close> answers \<^verbatim>\<open>null\<close> for
  a user that does not exist: reading \<^verbatim>\<open>user.bookmarks\<close> then throws, after the check of
  the post and before any write.
\<close>

definition bookmarkPost :: "objectId \<Rightarrow> objectId \<Rightarrow> world \<Rightarrow> reply \<times> world" where
  "bookmarkPost uid pid w =
     (let found = posts w pid; loaded = users w uid
      in case found of
           None \<Rightarrow> (Reply 404 False (Text ''Post not found'') NoPayload, w)
         | Some p \<Rightarrow>
             (case loaded of
                None \<Rightarrow> (Reply 500 False (ErrorMessage TypeError) NoPayload, w)
              | Some u \<Rightarrow>
                  (if uid \<in> set (bookmarks p) then
                     (case saveBoth pid (p\<lparr>bookmarks := filter (\<lambda>i. i \<noteq> uid) (bookmarks p)\<rparr>)
                             uid (u\<lparr>user_bookmarks := filter (\<lambda>i. i \<noteq> pid) (user_bookmarks u)\<rparr>) w of
                        (Some e, w1) \<Rightarrow> (Reply 500 False (ErrorMessage e) NoPayload, w1)
                      | (None, w1) \<Rightarrow>
                          (Reply 200 True (Text ''Post removed from bookmarks'') NoPayload, w1))
                   else
                     (case saveBoth pid (p\<lparr>bookmarks := bookmarks p @ [uid]\<rparr>)
                             uid (u\<lparr>user_bookmarks := user_bookmarks u @ [pid]\<rparr>) w of
                        (Some e, w1) \<Rightarrow> (Reply 500 False (ErrorMessage e) NoPayload, w1)
                      | (None, w1) \<Rightarrow>
                          (Reply 200 True (Text ''Post bookmarked successfully'') NoPayload, w1)))))"

section \<open>Properties\<close>

subsection \<open>Validation and saving\<close>

lemma validateComments_append:
  "validateComments i (cs @ [c])
   = validateComments i cs
     @ (if checkRequired (content c) then [] else [CommentContent (i + length cs)])"
  by (induction cs arbitrary: i) auto

lemma savePost_invalid:
  "validatePost p \<noteq> [] \<Longrightarrow> savePost pid p w = Inl (ValidationError (validatePost p))"
  by (cases "validatePost p") (simp_all add: savePost_def)

lemma savePost_valid:
  "validatePost p = [] \<Longrightarrow> savePost pid p w = Inr (w\<lparr>posts := (posts w)(pid \<mapsto> p)\<rparr>)"
  by (simp add: savePost_def)

lemma validatePost_likes: "validatePost (p\<lparr>likes := xs\<rparr>) = validatePost p"
  by (simp add: validatePost_def)

lemma validatePost_bookmarks: "validatePost (p\<lparr>bookmarks := xs\<rparr>) = validatePost p"
  by (simp add: validatePost_def)

text \<open>The strings that \<open>trim\<close> empties are the strings of white space.\<close>

lemma trim_Nil_iff: "trim s = [] \<longleftrightarrow> list_all isWhiteSpace s"
proof
  assume "trim s = []"
  then have all: "\<forall>x \<in> set (dropWhile isWhiteSpace s). isWhiteSpace x"
    by (simp add: trim_def)
  have "dropWhile isWhiteSpace s = []"
  proof (rule ccontr)
    assume ne: "dropWhile isWhiteSpace s \<noteq> []"
    then have "\<not> isWhiteSpace (hd (dropWhile isWhiteSpace s))"
      by (rule hd_dropWhile)
    moreover have "hd (dropWhile isWhiteSpace s) \<in> set (dropWhile isWhiteSpace s)"
      using ne by simp
    ultimately show False using all by blast
  qed
  then show "list_all isWhiteSpace s"
    by (simp add: list_all_iff)
next
  assume "list_all isWhiteSpace s"
  then have "dropWhile isWhiteSpace s = []"
    by (simp add: list_all_iff)
  then show "trim s = []"
    by (simp add: trim_def del: dropWhile_eq_Nil_conv)
qed

subsection \<open>Creating a post\<close>

text \<open>
  C1. With the caption \<^verbatim>\<open>hello\<close> and no file, \<open>addNewPost\<close> passes its own checks and
  builds a document without \<^verbatim>\<open>mediaType\<close>; the schema requires that path, so
  \<^verbatim>\<open>Post.create\<close> throws and the handler answers 500. No post is created.
\<close>

theorem addNewPost_caption_only:
  "addNewPost outcome new_id (Some uid) (Some ''hello'') None w
   = (Reply 500 False (ErrorMessage (ValidationError [MediaType])) NoPayload, w)"
  by (simp add: addNewPost_def createStep_def createPost_def validatePost_def)

text \<open>
  C8. For an authenticated request with no file and a caption that is absent or empty,
  \<open>addNewPost\<close> answers 400 and leaves the world as it was: no post document, no call
  to the remote storage.
\<close>

theorem addNewPost_nothing_given:
  assumes "\<not> truthy cap"
  shows "addNewPost outcome new_id (Some uid) cap None w
         = (Reply 400 False (Text ''Please provide either a caption or media file'') NoPayload, w)"
  using assms by (simp add: addNewPost_def)

theorem addNewPost_nothing_given_witness:
  "\<not> truthy (Some []) \<and>
   addNewPost (UploadOk ''https://res/x.png'' ''image'') 5 (Some 2) (Some []) None
     \<lparr>posts = [1 \<mapsto> \<lparr>caption = Some ''hello'', image_url = Some ''u'', video = None,
        mediaType = Some ''image'', author = 2, likes = [3], comments = [],
        bookmarks = []\<rparr>],
      users = [7 \<mapsto> \<lparr>user_bookmarks = []\<rparr>], files = {''/tmp/a''}, requests = []\<rparr>
   = (Reply 400 False (Text ''Please provide either a caption or media file'') NoPayload,
      \<lparr>posts = [1 \<mapsto> \<lparr>caption = Some ''hello'', image_url = Some ''u'', video = None,
        mediaType = Some ''image'', author = 2, likes = [3], comments = [],
        bookmarks = []\<rparr>],
      users = [7 \<mapsto> \<lparr>user_bookmarks = []\<rparr>], files = {''/tmp/a''}, requests = []\<rparr>)"
  using addNewPost_nothing_given [of "Some []" "UploadOk ''https://res/x.png'' ''image''" 5 2
     "\<lparr>posts = [1 \<mapsto> \<lparr>caption = Some ''hello'', image_url = Some ''u'', video = None,
        mediaType = Some ''image'', author = 2, likes = [3], comments = [],
        bookmarks = []\<rparr>],
      users = [7 \<mapsto> \<lparr>user_bookmarks = []\<rparr>], files = {''/tmp/a''}, requests = []\<rparr>"]
  by simp

text \<open>The two ways through the inner \<^verbatim>\<open>try\<close> when the temporary file is on disk.\<close>

lemma uploadStep_refused:
  assumes "path f \<in> files w" and "mimetype f \<notin> set allowedTypes"
  shows "uploadStep outcome f w
         = Inl (Reply 400 False
                  (Text ''Invalid file type. Only JPEG, PNG, and MP4 are allowed'') NoPayload,
                w\<lparr>files := files w - {path f}\<rparr>)"
  using assms by (simp add: uploadStep_def unlinkAsync_def)

lemma uploadStep_accepted:
  assumes "path f \<in> files w" and "mimetype f \<in> set allowedTypes"
  shows "uploadStep outcome f w
         = (case outcome of
              UploadRejected m \<Rightarrow>
                Inl (Reply 500 False (UploadFailed (RemoteError m)) NoPayload,
                     w\<lparr>requests := requests w
                         @ [UploadCall (path f) (startsWith (mimetype f) ''image'') outcome],
                       files := files w - {path f}\<rparr>)
            | UploadOk url rtype \<Rightarrow>
                Inr (url, rtype,
                     w\<lparr>requests := requests w
                         @ [UploadCall (path f) (startsWith (mimetype f) ''image'') outcome],
                       files := files w - {path f}\<rparr>))"
  using assms
  by (cases outcome) (simp_all add: uploadStep_def unlinkAsync_def uploadCatch_def Let_def)

lemma createPost_requests:
  "createPost new_id cap uid mediaUrl mType w = Inr (p, w1) \<Longrightarrow> requests w1 = requests w"
  by (auto simp add: createPost_def Let_def split: list.splits if_splits)

lemma createStep_requests:
  "requests (snd (createStep new_id uid cap fl mediaUrl mType w)) = requests w"
  by (cases "createPost new_id cap uid mediaUrl mType w")
     (auto simp add: createStep_def createPost_requests split: option.splits)

lemma createStep_status:
  "status (fst (createStep new_id uid cap fl mediaUrl mType w)) \<noteq> 400"
  by (cases "createPost new_id cap uid mediaUrl mType w")
     (auto simp add: createStep_def)

text \<open>
  C9. For an authenticated request whose temporary file is on disk: a MIME type outside
  \<^verbatim>\<open>image/jpeg\<close>, \<^verbatim>\<open>image/png\<close>, \<^verbatim>\<open>image/jpg\<close>, \<^verbatim>\<open>video/mp4\<close> is answered with 400
  \<^verbatim>\<open>Invalid file type\<close>, the temporary file is removed and nothing else changes (no call
  to the remote storage, no post document); a MIME type among the four is not answered
  with 400, and the upload is requested.
\<close>

theorem addNewPost_mimetype:
  assumes "path f \<in> files w"
  shows "(mimetype f \<notin> set [''image/jpeg'', ''image/png'', ''image/jpg'', ''video/mp4'']
          \<longrightarrow> addNewPost outcome new_id (Some uid) cap (Some f) w
              = (Reply 400 False
                   (Text ''Invalid file type. Only JPEG, PNG, and MP4 are allowed'') NoPayload,
                 w\<lparr>files := files w - {path f}\<rparr>))
       \<and> (mimetype f \<in> set [''image/jpeg'', ''image/png'', ''image/jpg'', ''video/mp4'']
          \<longrightarrow> status (fst (addNewPost outcome new_id (Some uid) cap (Some f) w)) \<noteq> 400
            \<and> requests (snd (addNewPost outcome new_id (Some uid) cap (Some f) w))
              = requests w @ [UploadCall (path f) (startsWith (mimetype f) ''image'') outcome])"
proof (intro conjI impI)
  assume "mimetype f \<notin> set [''image/jpeg'', ''image/png'', ''image/jpg'', ''video/mp4'']"
  then have "mimetype f \<notin> set allowedTypes"
    unfolding allowedTypes_def .
  then show "addNewPost outcome new_id (Some uid) cap (Some f) w
              = (Reply 400 False
                   (Text ''Invalid file type. Only JPEG, PNG, and MP4 are allowed'') NoPayload,
                 w\<lparr>files := files w - {path f}\<rparr>)"
    using assms by (simp add: addNewPost_def uploadStep_refused)
next
  assume "mimetype f \<in> set [''image/jpeg'', ''image/png'', ''image/jpg'', ''video/mp4'']"
  then have ok: "mimetype f \<in> set allowedTypes"
    unfolding allowedTypes_def .
  show "status (fst (addNewPost outcome new_id (Some uid) cap (Some f) w)) \<noteq> 400"
  proof (cases outcome)
    case (UploadOk url rtype)
    then show ?thesis
      by (simp add: addNewPost_def uploadStep_accepted [OF assms ok] createStep_status)
  next
    case (UploadRejected m)
    then show ?thesis
      by (simp add: addNewPost_def uploadStep_accepted [OF assms ok])
  qed
next
  assume "mimetype f \<in> set [''image/jpeg'', ''image/png'', ''image/jpg'', ''video/mp4'']"
  then have ok: "mimetype f \<in> set allowedTypes"
    unfolding allowedTypes_def .
  show "requests (snd (addNewPost outcome new_id (Some uid) cap (Some f) w))
        = requests w @ [UploadCall (path f) (startsWith (mimetype f) ''image'') outcome]"
    by (cases outcome)
       (simp_all add: addNewPost_def uploadStep_accepted [OF assms ok] createStep_requests)
qed

theorem addNewPost_mimetype_witness:
  "addNewPost (UploadOk ''https://res/x.png'' ''image'') 5 (Some 2) (Some ''hello'')
     (Some \<lparr>mimetype = ''application/pdf'', path = ''/tmp/a''\<rparr>)
     \<lparr>posts = [1 \<mapsto> \<lparr>caption = Some ''hello'', image_url = Some ''u'', video = None,
        mediaType = Some ''image'', author = 2, likes = [3], comments = [],
        bookmarks = []\<rparr>],
      users = [7 \<mapsto> \<lparr>user_bookmarks = []\<rparr>], files = {''/tmp/a''}, requests = []\<rparr>
   = (Reply 400 False (Text ''Invalid file type. Only JPEG, PNG, and MP4 are allowed'') NoPayload,
      \<lparr>posts = [1 \<mapsto> \<lparr>caption = Some ''hello'', image_url = Some ''u'', video = None,
        mediaType = Some ''image'', author = 2, likes = [3], comments = [],
        bookmarks = []\<rparr>],
      users = [7 \<mapsto> \<lparr>user_bookmarks = []\<rparr>], files = {}, requests = []\<rparr>)"
  using addNewPost_mimetype [of "\<lparr>mimetype = ''application/pdf'', path = ''/tmp/a''\<rparr>"
     "\<lparr>posts = [1 \<mapsto> \<lparr>caption = Some ''hello'', image_url = Some ''u'', video = None,
        mediaType = Some ''image'', author = 2, likes = [3], comments = [],
        bookmarks = []\<rparr>],
      users = [7 \<mapsto> \<lparr>user_bookmarks = []\<rparr>], files = {''/tmp/a''}, requests = []\<rparr>"
     "UploadOk ''https://res/x.png'' ''image''" 5 2 "Some ''hello''"]
  by simp

subsection \<open>Likes\<close>

text \<open>
  C6. For a stored post that passes its schema and a user not yet among its likes, the
  first \<open>likePost\<close> answers 200, the second one 400 with \<^verbatim>\<open>Post already liked\<close>, and
  after both the user is in the likes of the post exactly once.
\<close>

theorem likePost_twice:
  assumes "posts w pid = Some p" and "uid \<notin> set (likes p)" and "validatePost p = []"
  shows "fst (likePost uid pid w) = Reply 200 True (Text ''Post liked successfully'') NoPayload
       \<and> fst (likePost uid pid (snd (likePost uid pid w)))
           = Reply 400 False (Text ''Post already liked'') NoPayload
       \<and> (\<exists>p2. posts (snd (likePost uid pid (snd (likePost uid pid w)))) pid = Some p2
              \<and> count_list (likes p2) uid = 1)"
proof -
  let ?p1 = "p\<lparr>likes := likes p @ [uid]\<rparr>"
  let ?w1 = "w\<lparr>posts := (posts w)(pid \<mapsto> ?p1)\<rparr>"
  have first: "likePost uid pid w = (Reply 200 True (Text ''Post liked successfully'') NoPayload, ?w1)"
    using assms by (simp add: likePost_def savePost_valid validatePost_likes)
  have second: "likePost uid pid ?w1 = (Reply 400 False (Text ''Post already liked'') NoPayload, ?w1)"
    by (simp add: likePost_def)
  have "count_list (likes ?p1) uid = 1"
    using assms(2) by (simp add: count_list_0_iff)
  with first second show ?thesis by simp
qed

theorem likePost_twice_witness:
  "fst (likePost 7 1 \<lparr>posts = [1 \<mapsto> \<lparr>caption = Some ''hello'', image_url = Some ''u'', video = None,
        mediaType = Some ''image'', author = 2, likes = [3], comments = [],
        bookmarks = []\<rparr>],
      users = [7 \<mapsto> \<lparr>user_bookmarks = []\<rparr>], files = {''/tmp/a''}, requests = []\<rparr>) = Reply 200 True (Text ''Post liked successfully'') NoPayload
   \<and> fst (likePost 7 1 (snd (likePost 7 1 \<lparr>posts = [1 \<mapsto> \<lparr>caption = Some ''hello'', image_url = Some ''u'', video = None,
        mediaType = Some ''image'', author = 2, likes = [3], comments = [],
        bookmarks = []\<rparr>],
      users = [7 \<mapsto> \<lparr>user_bookmarks = []\<rparr>], files = {''/tmp/a''}, requests = []\<rparr>)))
       = Reply 400 False (Text ''Post already liked'') NoPayload
   \<and> (\<exists>p2. posts (snd (likePost 7 1 (snd (likePost 7 1 \<lparr>posts = [1 \<mapsto> \<lparr>caption = Some ''hello'', image_url = Some ''u'', video = None,
        mediaType = Some ''image'', author = 2, likes = [3], comments = [],
        bookmarks = []\<rparr>],
      users = [7 \<mapsto> \<lparr>user_bookmarks = []\<rparr>], files = {''/tmp/a''}, requests = []\<rparr>)))) 1 = Some p2
          \<and> count_list (likes p2) 7 = 1)"
  using likePost_twice [of "\<lparr>posts = [1 \<mapsto> \<lparr>caption = Some ''hello'', image_url = Some ''u'', video = None,
        mediaType = Some ''image'', author = 2, likes = [3], comments = [],
        bookmarks = []\<rparr>],
      users = [7 \<mapsto> \<lparr>user_bookmarks = []\<rparr>], files = {''/tmp/a''}, requests = []\<rparr>" 1 "\<lparr>caption = Some ''hello'', image_url = Some ''u'', video = None,
        mediaType = Some ''image'', author = 2, likes = [3], comments = [],
        bookmarks = []\<rparr>" 7]
  by (simp add: validatePost_def)

text \<open>
  C7. For a post that exists and a user who is not among its likes, \<open>dislikePost\<close>
  answers 400 with \<^verbatim>\<open>Post not liked yet\<close> and leaves the world, so also the likes of the
  post, as they were.
\<close>

theorem dislikePost_not_liked:
  assumes "posts w pid = Some p" and "uid \<notin> set (likes p)"
  shows "dislikePost uid pid w = (Reply 400 False (Text ''Post not liked yet'') NoPayload, w)"
  using assms by (simp add: dislikePost_def)

theorem dislikePost_not_liked_witness:
  "dislikePost 7 1 \<lparr>posts = [1 \<mapsto> \<lparr>caption = Some ''hello'', image_url = Some ''u'', video = None,
        mediaType = Some ''image'', author = 2, likes = [3], comments = [],
        bookmarks = []\<rparr>],
      users = [7 \<mapsto> \<lparr>user_bookmarks = []\<rparr>], files = {''/tmp/a''}, requests = []\<rparr>
   = (Reply 400 False (Text ''Post not liked yet'') NoPayload, \<lparr>posts = [1 \<mapsto> \<lparr>caption = Some ''hello'', image_url = Some ''u'', video = None,
        mediaType = Some ''image'', author = 2, likes = [3], comments = [],
        bookmarks = []\<rparr>],
      users = [7 \<mapsto> \<lparr>user_bookmarks = []\<rparr>], files = {''/tmp/a''}, requests = []\<rparr>)"
  using dislikePost_not_liked [of "\<lparr>posts = [1 \<mapsto> \<lparr>caption = Some ''hello'', image_url = Some ''u'', video = None,
        mediaType = Some ''image'', author = 2, likes = [3], comments = [],
        bookmarks = []\<rparr>],
      users = [7 \<mapsto> \<lparr>user_bookmarks = []\<rparr>], files = {''/tmp/a''}, requests = []\<rparr>" 1 "\<lparr>caption = Some ''hello'', image_url = Some ''u'', video = None,
        mediaType = Some ''image'', author = 2, likes = [3], comments = [],
        bookmarks = []\<rparr>" 7]
  by simp

subsection \<open>Comments\<close>

text \<open>
  C3. For a post that exists and a text that trimming empties (the empty string, or white
  space only), \<open>addComment\<close> fails with the validation error of the schema, which names
  the content of the new comment, and leaves the world as it was: the stored comments
  are unchanged. The failure reaches the client as a 500.
\<close>

theorem addComment_blank:
  assumes "posts w pid = Some p" and "trim s = []"
  shows "addComment new_id uid pid (Some s) w
         = (Reply 500 False
              (ErrorMessage (ValidationError (validatePost p @ [CommentContent (length (comments p))])))
              NoPayload, w)"
proof -
  let ?p1 = "p\<lparr>comments := comments p @ [castComment new_id (Some s) uid]\<rparr>"
  have bad: "\<not> checkRequired (content (castComment new_id (Some s) uid))"
    using assms(2) by (simp add: castComment_def)
  have "validatePost ?p1 = validatePost p @ [CommentContent (length (comments p))]"
    using bad by (simp add: validatePost_def validateComments_append)
  then have "savePost pid ?p1 w
             = Inl (ValidationError (validatePost p @ [CommentContent (length (comments p))]))"
    using savePost_invalid [of ?p1 pid w] by simp
  then show ?thesis
    using assms(1) by (simp add: addComment_def)
qed

theorem addComment_blank_witness:
  "trim [CHR 0x20, CHR 0x09, CHR 0x20] = [] \<and>
   addComment 9 7 1 (Some [CHR 0x20, CHR 0x09, CHR 0x20]) \<lparr>posts = [1 \<mapsto> \<lparr>caption = Some ''hello'', image_url = Some ''u'', video = None,
        mediaType = Some ''image'', author = 2, likes = [3], comments = [],
        bookmarks = []\<rparr>],
      users = [7 \<mapsto> \<lparr>user_bookmarks = []\<rparr>], files = {''/tmp/a''}, requests = []\<rparr>
   = (Reply 500 False (ErrorMessage (ValidationError [CommentContent 0])) NoPayload, \<lparr>posts = [1 \<mapsto> \<lparr>caption = Some ''hello'', image_url = Some ''u'', video = None,
        mediaType = Some ''image'', author = 2, likes = [3], comments = [],
        bookmarks = []\<rparr>],
      users = [7 \<mapsto> \<lparr>user_bookmarks = []\<rparr>], files = {''/tmp/a''}, requests = []\<rparr>)"
  using addComment_blank [of "\<lparr>posts = [1 \<mapsto> \<lparr>caption = Some ''hello'', image_url = Some ''u'', video = None,
        mediaType = Some ''image'', author = 2, likes = [3], comments = [],
        bookmarks = []\<rparr>],
      users = [7 \<mapsto> \<lparr>user_bookmarks = []\<rparr>], files = {''/tmp/a''}, requests = []\<rparr>" 1 "\<lparr>caption = Some ''hello'', image_url = Some ''u'', video = None,
        mediaType = Some ''image'', author = 2, likes = [3], comments = [],
        bookmarks = []\<rparr>" "[CHR 0x20, CHR 0x09, CHR 0x20]" 9 7]
  by (simp add: trim_def isWhiteSpace_def validatePost_def)

subsection \<open>Deleting a post\<close>

text \<open>
  C2, as the code has it. When the author deletes a post that carries media, the remote
  deletion is requested with \<^verbatim>\<open>post.image || post.video\<close>. If the call resolves,
  whatever it reports, the post document is removed and the answer is 200. If the call
  rejects, the answer is 500 with the message of the rejection and the post document
  stays.
\<close>

theorem deletePost_remote_outcome:
  assumes "posts w pid = Some p" and "author p = uid"
    and "truthy (image_url p) \<or> truthy (video p)"
  shows "deletePost outcome uid pid w
         = (case outcome of
              DestroyResolved r \<Rightarrow>
                (Reply 200 True (Text ''Post deleted successfully'') NoPayload,
                 w\<lparr>requests := requests w @ [DestroyCall (publicId p) outcome],
                   posts := (posts w)(pid := None)\<rparr>)
            | DestroyRejected m \<Rightarrow>
                (Reply 500 False (ErrorMessage (RemoteError m)) NoPayload,
                 w\<lparr>requests := requests w @ [DestroyCall (publicId p) outcome]\<rparr>))"
  using assms
  by (cases outcome) (auto simp add: deletePost_def deleteOne_def Let_def)

theorem deletePost_remote_outcome_witness:
  "deletePost (DestroyResolved ''not found'') 2 1 \<lparr>posts = [1 \<mapsto> \<lparr>caption = Some ''hello'', image_url = Some ''u'', video = None,
        mediaType = Some ''image'', author = 2, likes = [3], comments = [],
        bookmarks = []\<rparr>],
      users = [7 \<mapsto> \<lparr>user_bookmarks = []\<rparr>], files = {''/tmp/a''}, requests = []\<rparr>
   = (Reply 200 True (Text ''Post deleted successfully'') NoPayload,
      \<lparr>posts = [1 \<mapsto> \<lparr>caption = Some ''hello'', image_url = Some ''u'', video = None,
        mediaType = Some ''image'', author = 2, likes = [3], comments = [],
        bookmarks = []\<rparr>],
      users = [7 \<mapsto> \<lparr>user_bookmarks = []\<rparr>], files = {''/tmp/a''}, requests = []\<rparr>\<lparr>requests := [DestroyCall (Some ''u'') (DestroyResolved ''not found'')],
        posts := Map.empty\<rparr>)"
  using deletePost_remote_outcome [of "\<lparr>posts = [1 \<mapsto> \<lparr>caption = Some ''hello'', image_url = Some ''u'', video = None,
        mediaType = Some ''image'', author = 2, likes = [3], comments = [],
        bookmarks = []\<rparr>],
      users = [7 \<mapsto> \<lparr>user_bookmarks = []\<rparr>], files = {''/tmp/a''}, requests = []\<rparr>" 1 "\<lparr>caption = Some ''hello'', image_url = Some ''u'', video = None,
        mediaType = Some ''image'', author = 2, likes = [3], comments = [],
        bookmarks = []\<rparr>" 2 "DestroyResolved ''not found''"]
  by (simp add: publicId_def)

text \<open>
  The claim as the spec states it fails: the author deletes post 1, which has an image,
  the remote call rejects, and the post is still in the collection.
\<close>

theorem deletePost_remote_rejected_counterexample:
  "author (\<lparr>caption = Some ''hello'', image_url = Some ''u'', video = None,
        mediaType = Some ''image'', author = 2, likes = [3], comments = [],
        bookmarks = []\<rparr>) = 2 \<and> truthy (image_url (\<lparr>caption = Some ''hello'', image_url = Some ''u'', video = None,
        mediaType = Some ''image'', author = 2, likes = [3], comments = [],
        bookmarks = []\<rparr>))
   \<and> posts \<lparr>posts = [1 \<mapsto> \<lparr>caption = Some ''hello'', image_url = Some ''u'', video = None,
        mediaType = Some ''image'', author = 2, likes = [3], comments = [],
        bookmarks = []\<rparr>],
      users = [7 \<mapsto> \<lparr>user_bookmarks = []\<rparr>], files = {''/tmp/a''}, requests = []\<rparr> 1 = Some (\<lparr>caption = Some ''hello'', image_url = Some ''u'', video = None,
        mediaType = Some ''image'', author = 2, likes = [3], comments = [],
        bookmarks = []\<rparr>)
   \<and> fst (deletePost (DestroyRejected ''ETIMEDOUT'') 2 1 \<lparr>posts = [1 \<mapsto> \<lparr>caption = Some ''hello'', image_url = Some ''u'', video = None,
        mediaType = Some ''image'', author = 2, likes = [3], comments = [],
        bookmarks = []\<rparr>],
      users = [7 \<mapsto> \<lparr>user_bookmarks = []\<rparr>], files = {''/tmp/a''}, requests = []\<rparr>)
       = Reply 500 False (ErrorMessage (RemoteError ''ETIMEDOUT'')) NoPayload
   \<and> posts (snd (deletePost (DestroyRejected ''ETIMEDOUT'') 2 1 \<lparr>posts = [1 \<mapsto> \<lparr>caption = Some ''hello'', image_url = Some ''u'', video = None,
        mediaType = Some ''image'', author = 2, likes = [3], comments = [],
        bookmarks = []\<rparr>],
      users = [7 \<mapsto> \<lparr>user_bookmarks = []\<rparr>], files = {''/tmp/a''}, requests = []\<rparr>)) 1 = Some (\<lparr>caption = Some ''hello'', image_url = Some ''u'', video = None,
        mediaType = Some ''image'', author = 2, likes = [3], comments = [],
        bookmarks = []\<rparr>)"
  by (simp add: deletePost_def publicId_def)

subsection \<open>Bookmarks\<close>

text \<open>
  C10. When no post has the given id, \<open>bookmarkPost\<close> answers 404 and leaves the world
  as it was, whether the user it loaded first exists or not.
\<close>

theorem bookmarkPost_not_found:
  assumes "posts w pid = None"
  shows "bookmarkPost uid pid w = (Reply 404 False (Text ''Post not found'') NoPayload, w)"
  using assms by (simp add: bookmarkPost_def)

theorem bookmarkPost_not_found_witness:
  "posts \<lparr>posts = [1 \<mapsto> \<lparr>caption = Some ''hello'', image_url = Some ''u'', video = None,
        mediaType = Some ''image'', author = 2, likes = [3], comments = [],
        bookmarks = []\<rparr>],
      users = [7 \<mapsto> \<lparr>user_bookmarks = []\<rparr>], files = {''/tmp/a''}, requests = []\<rparr> 4 = None \<and>
   bookmarkPost 7 4 \<lparr>posts = [1 \<mapsto> \<lparr>caption = Some ''hello'', image_url = Some ''u'', video = None,
        mediaType = Some ''image'', author = 2, likes = [3], comments = [],
        bookmarks = []\<rparr>],
      users = [7 \<mapsto> \<lparr>user_bookmarks = []\<rparr>], files = {''/tmp/a''}, requests = []\<rparr> = (Reply 404 False (Text ''Post not found'') NoPayload, \<lparr>posts = [1 \<mapsto> \<lparr>caption = Some ''hello'', image_url = Some ''u'', video = None,
        mediaType = Some ''image'', author = 2, likes = [3], comments = [],
        bookmarks = []\<rparr>],
      users = [7 \<mapsto> \<lparr>user_bookmarks = []\<rparr>], files = {''/tmp/a''}, requests = []\<rparr>)"
  using bookmarkPost_not_found [of "\<lparr>posts = [1 \<mapsto> \<lparr>caption = Some ''hello'', image_url = Some ''u'', video = None,
        mediaType = Some ''image'', author = 2, likes = [3], comments = [],
        bookmarks = []\<rparr>],
      users = [7 \<mapsto> \<lparr>user_bookmarks = []\<rparr>], files = {''/tmp/a''}, requests = []\<rparr>" 4 7]
  by simp

text \<open>What one call does to a stored post that passes its schema and a user that exists.\<close>

lemma bookmarkPost_valid:
  assumes "posts w pid = Some p" and "users w uid = Some u" and "validatePost p = []"
  shows "bookmarkPost uid pid w =
     (if uid \<in> set (bookmarks p) then
        (Reply 200 True (Text ''Post removed from bookmarks'') NoPayload,
         w\<lparr>posts := (posts w)(pid \<mapsto> p\<lparr>bookmarks := filter (\<lambda>i. i \<noteq> uid) (bookmarks p)\<rparr>),
           users := (users w)(uid \<mapsto> u\<lparr>user_bookmarks := filter (\<lambda>i. i \<noteq> pid) (user_bookmarks u)\<rparr>)\<rparr>)
      else
        (Reply 200 True (Text ''Post bookmarked successfully'') NoPayload,
         w\<lparr>posts := (posts w)(pid \<mapsto> p\<lparr>bookmarks := bookmarks p @ [uid]\<rparr>),
           users := (users w)(uid \<mapsto> u\<lparr>user_bookmarks := user_bookmarks u @ [pid]\<rparr>)\<rparr>))"
  using assms
  by (simp add: bookmarkPost_def saveBoth_def saveUser_def savePost_valid validatePost_bookmarks)

lemma bookmarkPost_step:
  assumes "posts w pid = Some p" and "users w uid = Some u" and "validatePost p = []"
  shows "\<exists>r p1 u1.
      bookmarkPost uid pid w
        = (r, w\<lparr>posts := (posts w)(pid \<mapsto> p1), users := (users w)(uid \<mapsto> u1)\<rparr>)
    \<and> success r \<and> validatePost p1 = []
    \<and> (if uid \<in> set (bookmarks p)
        then bookmarks p1 = filter (\<lambda>i. i \<noteq> uid) (bookmarks p)
           \<and> user_bookmarks u1 = filter (\<lambda>i. i \<noteq> pid) (user_bookmarks u)
        else bookmarks p1 = bookmarks p @ [uid]
           \<and> user_bookmarks u1 = user_bookmarks u @ [pid])"
proof (cases "uid \<in> set (bookmarks p)")
  case True
  show ?thesis
    apply (rule exI [of _ "Reply 200 True (Text ''Post removed from bookmarks'') NoPayload"])
    apply (rule exI [of _ "p\<lparr>bookmarks := filter (\<lambda>i. i \<noteq> uid) (bookmarks p)\<rparr>"])
    apply (rule exI [of _ "u\<lparr>user_bookmarks := filter (\<lambda>i. i \<noteq> pid) (user_bookmarks u)\<rparr>"])
    using True assms(3) bookmarkPost_valid [OF assms]
    apply (simp add: validatePost_bookmarks)
    done
next
  case False
  show ?thesis
    apply (rule exI [of _ "Reply 200 True (Text ''Post bookmarked successfully'') NoPayload"])
    apply (rule exI [of _ "p\<lparr>bookmarks := bookmarks p @ [uid]\<rparr>"])
    apply (rule exI [of _ "u\<lparr>user_bookmarks := user_bookmarks u @ [pid]\<rparr>"])
    using False assms(3) bookmarkPost_valid [OF assms]
    apply (simp add: validatePost_bookmarks)
    done
qed

text \<open>
  C4. For a stored post that passes its schema and a user that exists, mirror-consistent
  with each other (the user is among the bookmarks of the post exactly when the post is among the bookmarks of the user): each of two calls in
  succession succeeds; after the first the membership of the user in the bookmarks of the
  post is flipped and the two sides are mirror-consistent; after the second both sides
  have the members they had at the start and are mirror-consistent.
\<close>

theorem bookmarkPost_round_trip:
  assumes "posts w pid = Some p" and "users w uid = Some u" and "validatePost p = []"
    and "(uid \<in> set (bookmarks p)) = (pid \<in> set (user_bookmarks u))"
  shows "\<exists>p1 u1 p2 u2.
      success (fst (bookmarkPost uid pid w))
    \<and> posts (snd (bookmarkPost uid pid w)) pid = Some p1
    \<and> users (snd (bookmarkPost uid pid w)) uid = Some u1
    \<and> (uid \<in> set (bookmarks p1)) = (pid \<in> set (user_bookmarks u1))
    \<and> (uid \<in> set (bookmarks p1)) = (uid \<notin> set (bookmarks p))
    \<and> success (fst (bookmarkPost uid pid (snd (bookmarkPost uid pid w))))
    \<and> posts (snd (bookmarkPost uid pid (snd (bookmarkPost uid pid w)))) pid = Some p2
    \<and> users (snd (bookmarkPost uid pid (snd (bookmarkPost uid pid w)))) uid = Some u2
    \<and> set (bookmarks p2) = set (bookmarks p)
    \<and> set (user_bookmarks u2) = set (user_bookmarks u)
    \<and> (uid \<in> set (bookmarks p2)) = (pid \<in> set (user_bookmarks u2))"
proof -
  obtain r1 p1 u1 w1
    where w1: "w1 = w\<lparr>posts := (posts w)(pid \<mapsto> p1), users := (users w)(uid \<mapsto> u1)\<rparr>"
    and first: "bookmarkPost uid pid w = (r1, w1)"
    and ok1: "success r1" and valid1: "validatePost p1 = []"
    and step1: "if uid \<in> set (bookmarks p)
                then bookmarks p1 = filter (\<lambda>i. i \<noteq> uid) (bookmarks p)
                   \<and> user_bookmarks u1 = filter (\<lambda>i. i \<noteq> pid) (user_bookmarks u)
                else bookmarks p1 = bookmarks p @ [uid]
                   \<and> user_bookmarks u1 = user_bookmarks u @ [pid]"
    using bookmarkPost_step [OF assms(1-3)] by blast
  have p1: "posts w1 pid = Some p1" and u1: "users w1 uid = Some u1"
    by (simp_all add: w1)
  obtain r2 p2 u2 w2
    where w2: "w2 = w1\<lparr>posts := (posts w1)(pid \<mapsto> p2), users := (users w1)(uid \<mapsto> u2)\<rparr>"
    and second: "bookmarkPost uid pid w1 = (r2, w2)"
    and ok2: "success r2"
    and step2: "if uid \<in> set (bookmarks p1)
                then bookmarks p2 = filter (\<lambda>i. i \<noteq> uid) (bookmarks p1)
                   \<and> user_bookmarks u2 = filter (\<lambda>i. i \<noteq> pid) (user_bookmarks u1)
                else bookmarks p2 = bookmarks p1 @ [uid]
                   \<and> user_bookmarks u2 = user_bookmarks u1 @ [pid]"
    using bookmarkPost_step [OF p1 u1 valid1] by blast
  have p2: "posts w2 pid = Some p2" and u2: "users w2 uid = Some u2"
    by (simp_all add: w2)
  have mirror1: "(uid \<in> set (bookmarks p1)) = (pid \<in> set (user_bookmarks u1))"
    using step1 assms(4) by (auto split: if_splits)
  have flip1: "(uid \<in> set (bookmarks p1)) = (uid \<notin> set (bookmarks p))"
    using step1 by (auto split: if_splits)
  have back_post: "set (bookmarks p2) = set (bookmarks p)"
    using step1 step2 by (auto split: if_splits)
  have back_user: "set (user_bookmarks u2) = set (user_bookmarks u)"
    using step1 step2 assms(4) by (auto split: if_splits)
  have mirror2: "(uid \<in> set (bookmarks p2)) = (pid \<in> set (user_bookmarks u2))"
    using back_post back_user assms(4) by simp
  show ?thesis
    using p1 u1 ok1 mirror1 flip1 p2 u2 ok2 back_post back_user mirror2
    by (simp add: first second)
qed

theorem bookmarkPost_round_trip_witness:
  "\<exists>p1 u1 p2 u2.
      success (fst (bookmarkPost 7 1 \<lparr>posts = [1 \<mapsto> \<lparr>caption = Some ''hello'', image_url = Some ''u'', video = None,
        mediaType = Some ''image'', author = 2, likes = [3], comments = [],
        bookmarks = []\<rparr>],
      users = [7 \<mapsto> \<lparr>user_bookmarks = []\<rparr>], files = {''/tmp/a''}, requests = []\<rparr>))
    \<and> posts (snd (bookmarkPost 7 1 \<lparr>posts = [1 \<mapsto> \<lparr>caption = Some ''hello'', image_url = Some ''u'', video = None,
        mediaType = Some ''image'', author = 2, likes = [3], comments = [],
        bookmarks = []\<rparr>],
      users = [7 \<mapsto> \<lparr>user_bookmarks = []\<rparr>], files = {''/tmp/a''}, requests = []\<rparr>)) 1 = Some p1
    \<and> users (snd (bookmarkPost 7 1 \<lparr>posts = [1 \<mapsto> \<lparr>caption = Some ''hello'', image_url = Some ''u'', video = None,
        mediaType = Some ''image'', author = 2, likes = [3], comments = [],
        bookmarks = []\<rparr>],
      users = [7 \<mapsto> \<lparr>user_bookmarks = []\<rparr>], files = {''/tmp/a''}, requests = []\<rparr>)) 7 = Some u1
    \<and> (7 \<in> set (bookmarks p1)) = (1 \<in> set (user_bookmarks u1))
    \<and> (7 \<in> set (bookmarks p1)) = (7 \<notin> set (bookmarks (\<lparr>caption = Some ''hello'', image_url = Some ''u'', video = None,
        mediaType = Some ''image'', author = 2, likes = [3], comments = [],
        bookmarks = []\<rparr>)))
    \<and> success (fst (bookmarkPost 7 1 (snd (bookmarkPost 7 1 \<lparr>posts = [1 \<mapsto> \<lparr>caption = Some ''hello'', image_url = Some ''u'', video = None,
        mediaType = Some ''image'', author = 2, likes = [3], comments = [],
        bookmarks = []\<rparr>],
      users = [7 \<mapsto> \<lparr>user_bookmarks = []\<rparr>], files = {''/tmp/a''}, requests = []\<rparr>))))
    \<and> posts (snd (bookmarkPost 7 1 (snd (bookmarkPost 7 1 \<lparr>posts = [1 \<mapsto> \<lparr>caption = Some ''hello'', image_url = Some ''u'', video = None,
        mediaType = Some ''image'', author = 2, likes = [3], comments = [],
        bookmarks = []\<rparr>],
      users = [7 \<mapsto> \<lparr>user_bookmarks = []\<rparr>], files = {''/tmp/a''}, requests = []\<rparr>)))) 1 = Some p2
    \<and> users (snd (bookmarkPost 7 1 (snd (bookmarkPost 7 1 \<lparr>posts = [1 \<mapsto> \<lparr>caption = Some ''hello'', image_url = Some ''u'', video = None,
        mediaType = Some ''image'', author = 2, likes = [3], comments = [],
        bookmarks = []\<rparr>],
      users = [7 \<mapsto> \<lparr>user_bookmarks = []\<rparr>], files = {''/tmp/a''}, requests = []\<rparr>)))) 7 = Some u2
    \<and> set (bookmarks p2) = set (bookmarks (\<lparr>caption = Some ''hello'', image_url = Some ''u'', video = None,
        mediaType = Some ''image'', author = 2, likes = [3], comments = [],
        bookmarks = []\<rparr>))
    \<and> set (user_bookmarks u2) = set (user_bookmarks \<lparr>user_bookmarks = []\<rparr>)
    \<and> (7 \<in> set (bookmarks p2)) = (1 \<in> set (user_bookmarks u2))"
  using bookmarkPost_round_trip [of "\<lparr>posts = [1 \<mapsto> \<lparr>caption = Some ''hello'', image_url = Some ''u'', video = None,
        mediaType = Some ''image'', author = 2, likes = [3], comments = [],
        bookmarks = []\<rparr>],
      users = [7 \<mapsto> \<lparr>user_bookmarks = []\<rparr>], files = {''/tmp/a''}, requests = []\<rparr>" 1 "\<lparr>caption = Some ''hello'', image_url = Some ''u'', video = None,
        mediaType = Some ''image'', author = 2, likes = [3], comments = [],
        bookmarks = []\<rparr>" 7 "\<lparr>user_bookmarks = []\<rparr>"]
  by (simp add: validatePost_def)

subsection \<open>Uniqueness of likes and bookmarks\<close>

lemma likePost_keeps_distinct:
  assumes "posts w q = Some p" and "distinct (likes p)" and "distinct (bookmarks p)"
  shows "\<exists>p'. posts (snd (likePost uid pid w)) q = Some p'
             \<and> distinct (likes p') \<and> distinct (bookmarks p')"
  using assms
  by (auto simp add: likePost_def savePost_def split: option.splits list.splits)

lemma dislikePost_keeps_distinct:
  assumes "posts w q = Some p" and "distinct (likes p)" and "distinct (bookmarks p)"
  shows "\<exists>p'. posts (snd (dislikePost uid pid w)) q = Some p'
             \<and> distinct (likes p') \<and> distinct (bookmarks p')"
  using assms
  by (auto simp add: dislikePost_def savePost_def split: option.splits list.splits)

lemma bookmarkPost_keeps_distinct:
  assumes "posts w q = Some p" and "distinct (likes p)" and "distinct (bookmarks p)"
  shows "\<exists>p'. posts (snd (bookmarkPost uid pid w)) q = Some p'
             \<and> distinct (likes p') \<and> distinct (bookmarks p')"
  using assms
  by (auto simp add: bookmarkPost_def saveBoth_def saveUser_def savePost_def Let_def
      split: option.splits list.splits)

text \<open>
  C5. If the likes and the bookmarks of a stored post hold each user id at most once,
  they still do after \<open>likePost\<close>, \<open>dislikePost\<close> or \<open>bookmarkPost\<close>, by any user on
  any post, whatever the handler answered.
\<close>

theorem engagement_keeps_distinct:
  assumes "posts w q = Some p" and "distinct (likes p)" and "distinct (bookmarks p)"
  shows "(\<exists>p'. posts (snd (likePost uid pid w)) q = Some p'
              \<and> distinct (likes p') \<and> distinct (bookmarks p'))
       \<and> (\<exists>p'. posts (snd (dislikePost uid pid w)) q = Some p'
              \<and> distinct (likes p') \<and> distinct (bookmarks p'))
       \<and> (\<exists>p'. posts (snd (bookmarkPost uid pid w)) q = Some p'
              \<and> distinct (likes p') \<and> distinct (bookmarks p'))"
  using likePost_keeps_distinct [OF assms] dislikePost_keeps_distinct [OF assms]
    bookmarkPost_keeps_distinct [OF assms]
  by simp

theorem engagement_keeps_distinct_witness:
  "(\<exists>p'. posts (snd (likePost 7 1 \<lparr>posts = [1 \<mapsto> \<lparr>caption = Some ''hello'', image_url = Some ''u'', video = None,
        mediaType = Some ''image'', author = 2, likes = [3], comments = [],
        bookmarks = []\<rparr>],
      users = [7 \<mapsto> \<lparr>user_bookmarks = []\<rparr>], files = {''/tmp/a''}, requests = []\<rparr>)) 1 = Some p'
          \<and> distinct (likes p') \<and> distinct (bookmarks p'))
   \<and> (\<exists>p'. posts (snd (dislikePost 7 1 \<lparr>posts = [1 \<mapsto> \<lparr>caption = Some ''hello'', image_url = Some ''u'', video = None,
        mediaType = Some ''image'', author = 2, likes = [3], comments = [],
        bookmarks = []\<rparr>],
      users = [7 \<mapsto> \<lparr>user_bookmarks = []\<rparr>], files = {''/tmp/a''}, requests = []\<rparr>)) 1 = Some p'
          \<and> distinct (likes p') \<and> distinct (bookmarks p'))
   \<and> (\<exists>p'. posts (snd (bookmarkPost 7 1 \<lparr>posts = [1 \<mapsto> \<lparr>caption = Some ''hello'', image_url = Some ''u'', video = None,
        mediaType = Some ''image'', author = 2, likes = [3], comments = [],
        bookmarks = []\<rparr>],
      users = [7 \<mapsto> \<lparr>user_bookmarks = []\<rparr>], files = {''/tmp/a''}, requests = []\<rparr>)) 1 = Some p'
          \<and> distinct (likes p') \<and> distinct (bookmarks p'))"
  using engagement_keeps_distinct [of "\<lparr>posts = [1 \<mapsto> \<lparr>caption = Some ''hello'', image_url = Some ''u'', video = None,
        mediaType = Some ''image'', author = 2, likes = [3], comments = [],
        bookmarks = []\<rparr>],
      users = [7 \<mapsto> \<lparr>user_bookmarks = []\<rparr>], files = {''/tmp/a''}, requests = []\<rparr>" 1 "\<lparr>caption = Some ''hello'', image_url = Some ''u'', video = None,
        mediaType = Some ''image'', author = 2, likes = [3], comments = [],
        bookmarks = []\<rparr>" 7 1]
  by simp

end
